theory Spec2Isabelle
  imports Main "HOL-Library.Sublist" "HOL-Library.Word"
begin

section \<open>JavaScript values used by the client\<close>

text \<open>
  The client of \<^verbatim>\<open>src/index.js\<close> is dynamically typed: an id, a sort string, a field
  list and a request body are arbitrary JavaScript values, and every guard of the source is
  a truthiness test. The values are modelled by \<open>jsval\<close>. A number is an integer from
  \<open>- 2 ^ 53\<close> to \<open>2 ^ 53 - 1\<close>, a signed word of 54 bits: each of them is a
  double, and JavaScript prints each in plain decimal (the documented ids are integers;
  fractions, NaN, the infinities and larger magnitudes are left out). A string is a list
  of bytes. An object is a plain object, with the prototype \<^verbatim>\<open>Object.prototype\<close>,
  given by the list of its own properties; no value of \<open>jsval\<close> is a function.
\<close>

datatype jsval =
    JUndefined
  | JNull
  | JBool bool
  | JNum "54 word"
  | JStr string
  | JArr "jsval list"
  | JObj "(string \<times> jsval) list"

text \<open>ToBoolean: what \<^verbatim>\<open>if(v)\<close>, \<^verbatim>\<open>!v\<close>, \<^verbatim>\<open>v || w\<close> and \<^verbatim>\<open>v ? a : b\<close> test.\<close>

fun truthy :: "jsval \<Rightarrow> bool" where
  "truthy JUndefined = False"
| "truthy JNull = False"
| "truthy (JBool b) = b"
| "truthy (JNum n) = (n \<noteq> 0)"
| "truthy (JStr s) = (s \<noteq> [])"
| "truthy (JArr xs) = True"
| "truthy (JObj kvs) = True"

text \<open>Decimal digits of a natural number, most significant first.\<close>

definition digit :: "nat \<Rightarrow> char" where
  "digit n = ''0123456789'' ! (n mod 10)"

fun digits :: "nat \<Rightarrow> string" where
  "digits n = (if n < 10 then [digit n] else digits (n div 10) @ [digit n])"

declare digits.simps [simp del]

definition show_int :: "int \<Rightarrow> string" where
  "show_int i = (if i < 0 then CHR ''-'' # digits (nat (- i)) else digits (nat i))"

text \<open>\<^verbatim>\<open>xs.join(sep)\<close> on the strings of the elements.\<close>

fun join :: "string list \<Rightarrow> string \<Rightarrow> string" where
  "join [] sep = []"
| "join [x] sep = x"
| "join (x # y # ys) sep = x @ sep @ join (y # ys) sep"

text \<open>
  What a call throws. \<open>Error\<close> carries the message of \<^verbatim>\<open>new Error(msg)\<close>;
  \<open>ReferenceError\<close> names the identifier that did not resolve, \<open>TypeError\<close> the
  expression that was called without being a function, or says that an object has no
  primitive value.
\<close>

datatype error = Error string | ReferenceError string | TypeError string

text \<open>The first error of a list of results, in order, or all the values.\<close>

fun collect :: "(error + 'a) list \<Rightarrow> error + 'a list" where
  "collect [] = Inr []"
| "collect (Inl e # rs) = Inl e"
| "collect (Inr x # rs) = (case collect rs of Inl e \<Rightarrow> Inl e | Inr xs \<Rightarrow> Inr (x # xs))"

text \<open>
  ToString, as applied by \<^verbatim>\<open>"..." + v\<close> and by \<^verbatim>\<open>join\<close> to the elements of an
  array. An array is the join of its elements with a comma, converted in order, where
  \<^verbatim>\<open>undefined\<close> and \<^verbatim>\<open>null\<close> elements give the empty string. A plain object
  is \<^verbatim>\<open>[object Object]\<close> through the \<^verbatim>\<open>toString\<close> it inherits; when it has an
  own property \<^verbatim>\<open>toString\<close>, that property is not a function, the inherited
  \<^verbatim>\<open>valueOf\<close> returns the object itself, and the conversion is a TypeError.
\<close>

fun to_string :: "jsval \<Rightarrow> error + string" where
  "to_string JUndefined = Inr ''undefined''"
| "to_string JNull = Inr ''null''"
| "to_string (JBool b) = Inr (if b then ''true'' else ''false'')"
| "to_string (JNum n) = Inr (show_int (sint n))"
| "to_string (JStr s) = Inr s"
| "to_string (JArr xs) =
     (case collect (map (\<lambda>x. if x = JUndefined \<or> x = JNull then Inr [] else to_string x) xs) of
        Inl e \<Rightarrow> Inl e
      | Inr ss \<Rightarrow> Inr (join ss '',''))"
| "to_string (JObj kvs) =
     (if ''toString'' \<in> set (map fst kvs)
      then Inl (TypeError ''Cannot convert object to primitive value'')
      else Inr ''[object Object]'')"

section \<open>Base64\<close>

text \<open>
  \<^verbatim>\<open>new Buffer(s).toString('base64')\<close>: the standard alphabet with \<^verbatim>\<open>=\<close> padding,
  three bytes to four characters.
\<close>

definition b64_alphabet :: string where
  "b64_alphabet = ''ABCDEFGHIJKLMNOPQRSTUVWXYZabcdefghijklmnopqrstuvwxyz0123456789+/''"

definition b64_char :: "nat \<Rightarrow> char" where
  "b64_char n = b64_alphabet ! (n mod 64)"

fun base64 :: "string \<Rightarrow> string" where
  "base64 [] = []"
| "base64 [a] =
     (let x = (of_char a :: nat)
      in [b64_char (x div 4), b64_char ((x mod 4) * 16), CHR ''='', CHR ''=''])"
| "base64 [a, b] =
     (let x = (of_char a :: nat); y = (of_char b :: nat)
      in [b64_char (x div 4), b64_char ((x mod 4) * 16 + y div 16),
          b64_char ((y mod 16) * 4), CHR ''=''])"
| "base64 (a # b # c # rest) =
     (let x = (of_char a :: nat); y = (of_char b :: nat); z = (of_char c :: nat)
      in [b64_char (x div 4), b64_char ((x mod 4) * 16 + y div 16),
          b64_char ((y mod 16) * 4 + z div 64), b64_char (z mod 64)] @ base64 rest)"

section \<open>The client\<close>

text \<open>
  What the requester receives: \<^verbatim>\<open>{url, body, method, headers}\<close>. The headers object
  is a finite map from header names to values.
\<close>

record request =
  url :: string
  body :: jsval
  "method" :: jsval
  headers :: "string \<rightharpoonup> string"

text \<open>
  A value in requester position: a function from the request to whatever the requester
  returns, or some other JavaScript value (\<^verbatim>\<open>undefined\<close> when none was passed).
\<close>

datatype 'r callable = Fn "request \<Rightarrow> 'r" | Val jsval

text \<open>\<^verbatim>\<open>this.mode\<close>: never assigned, \<^verbatim>\<open>"doc"\<close> or \<^verbatim>\<open>"store"\<close>.\<close>

datatype mode = Unset | Doc | Store

record 'r client =
  host :: string
  requester :: "'r callable"
  apiTokenEncoded :: string
  mode :: mode
  docSetId :: jsval
  docId :: jsval
  storeObjectId :: jsval

text \<open>The constructor \<^verbatim>\<open>function API(host, apiToken, requester)\<close>.\<close>

definition API :: "string \<Rightarrow> string \<Rightarrow> 'r callable \<Rightarrow> 'r client" where
  "API h apiToken rq =
     \<lparr>host = h, requester = rq, apiTokenEncoded = base64 (apiToken @ '':x-auth-token''),
      mode = Unset, docSetId = JUndefined, docId = JUndefined, storeObjectId = JUndefined\<rparr>"

subsection \<open>The fluent selectors\<close>

definition docSet :: "'r client \<Rightarrow> jsval \<Rightarrow> 'r client" where
  "docSet c i = c\<lparr>mode := Doc, docSetId := i\<rparr>"

definition doc :: "'r client \<Rightarrow> jsval \<Rightarrow> error + 'r client" where
  "doc c i =
     (if \<not> truthy (docSetId c)
      then Inl (Error ''You must specify a doc set id before picking out a document.'')
      else Inr (c\<lparr>mode := Doc, docId := i\<rparr>))"

definition store :: "'r client \<Rightarrow> 'r client" where
  "store c = c\<lparr>mode := Store\<rparr>"

definition object :: "'r client \<Rightarrow> jsval \<Rightarrow> 'r client" where
  "object c i = c\<lparr>mode := Store, storeObjectId := i\<rparr>"

subsection \<open>Request dispatch\<close>

text \<open>
  An action either throws or hands one request to a requester and returns what the
  requester returns. Its outcome is the list of requests handed to a requester during
  the call, in order, and the value returned (\<open>Inr\<close>) or the error thrown (\<open>Inl\<close>).
  No action of the source assigns to a field of the client.
\<close>

type_synonym 'r outcome = "request list \<times> (error + 'r)"

definition throw :: "error \<Rightarrow> 'r outcome" where
  "throw e = ([], Inl e)"

text \<open>\<^verbatim>\<open>requester || this.requester\<close>; a function is truthy.\<close>

fun pick :: "'r callable \<Rightarrow> 'r callable \<Rightarrow> 'r callable" where
  "pick (Fn f) dflt = Fn f"
| "pick (Val v) dflt = (if truthy v then Val v else dflt)"

text \<open>
  \<^verbatim>\<open>API.prototype._request = function(path, requester, method, body)\<close>; an argument
  that the caller leaves out is \<open>JUndefined\<close>.
\<close>

definition api_request ::
  "'r client \<Rightarrow> string \<Rightarrow> 'r callable \<Rightarrow> jsval \<Rightarrow> jsval \<Rightarrow> 'r outcome" where
  "api_request c path rq meth bdy =
     (case pick rq (requester c) of
        Val v \<Rightarrow>
          throw (Error (''You must provide a requester function when '' @
                        ''constructing the class or making the request.''))
      | Fn f \<Rightarrow>
          (let hdrs = [''Authorization'' \<mapsto> ''Basic '' @ apiTokenEncoded c];
               hdrs = (if truthy bdy then hdrs(''Content-Type'' \<mapsto> ''application/json'')
                       else hdrs);
               d = \<lparr>url = host c @ ''/api/v1'' @ path,
                    body = bdy,
                    method = (if truthy meth then meth else JStr ''GET''),
                    headers = hdrs\<rparr>
           in ([d], Inr (f d))))"

subsection \<open>The actions\<close>

definition getIds :: "'r client \<Rightarrow> 'r callable \<Rightarrow> 'r outcome" where
  "getIds c rq =
     (if \<not> truthy (docSetId c)
      then throw (Error ''Must call docSet() with a set id before using this method.'')
      else
        (case to_string (docSetId c) of
           Inl e \<Rightarrow> throw e
         | Inr s \<Rightarrow>
             api_request c (''/document-sets/'' @ s @ ''/documents?fields=id'')
               rq JUndefined JUndefined))"

text \<open>
  The three strings are built in the order of the source: the sort parameter, the
  fields parameter, the path with the document set id; a value without a string throws
  there. In \<^verbatim>\<open>(fields || ["id", "text"]).join(",")\<close> a truthy \<^verbatim>\<open>fields\<close> that is
  not an array has no \<^verbatim>\<open>join\<close> method, and calling it is a TypeError. On an array,
  \<^verbatim>\<open>join(",")\<close> is the string of the array, \<open>to_string (JArr xs)\<close>.
\<close>

definition getDocuments :: "'r client \<Rightarrow> jsval \<Rightarrow> jsval \<Rightarrow> 'r callable \<Rightarrow> 'r outcome" where
  "getDocuments c fields' sort' rq =
     (if \<not> truthy (docSetId c)
      then throw (Error ''Must call docSet() with a set id before using this method.'')
      else
        (case (if truthy sort' then to_string sort' else Inr []) of
           Inl e \<Rightarrow> throw e
         | Inr so \<Rightarrow>
             (let sortParam = (if truthy sort' then ''&sort='' @ so else [])
              in case (if truthy fields' then fields' else JArr [JStr ''id'', JStr ''text'']) of
                   JArr xs \<Rightarrow>
                     (case to_string (JArr xs) of
                        Inl e \<Rightarrow> throw e
                      | Inr fs \<Rightarrow>
                          (let fieldsParam = ''&fields='' @ fs
                           in case to_string (docSetId c) of
                                Inl e \<Rightarrow> throw e
                              | Inr s \<Rightarrow>
                                  (let path = ''/document-sets/'' @ s @
                                              ''/documents?stream=true'' @ fieldsParam @ sortParam
                                   in api_request c path rq JUndefined JUndefined)))
                 | _ \<Rightarrow> throw (TypeError ''fields.join''))))"

text \<open>
  \<^verbatim>\<open>API.prototype.get\<close>. In the \<^verbatim>\<open>"doc"\<close> case the source reads the identifier
  \<^verbatim>\<open>docId\<close>, which is neither a local nor a module variable: it resolves on the global
  object, given here as \<open>globals\<close>, and is a ReferenceError when absent; the left
  operand of that \<^verbatim>\<open>+\<close>, with the string of the document set id, is built before. The call
  \<^verbatim>\<open>this.getAllDocuments(...)\<close> names a property that neither the constructor nor
  \<^verbatim>\<open>API.prototype\<close> defines, so the callee is \<^verbatim>\<open>undefined\<close>.
\<close>

definition get :: "(string \<rightharpoonup> jsval) \<Rightarrow> 'r client \<Rightarrow> 'r callable \<Rightarrow> 'r outcome" where
  "get globals c rq =
     (case mode c of
        Doc \<Rightarrow>
          (if truthy (docId c) then
             (case to_string (docSetId c) of
                Inl e \<Rightarrow> throw e
              | Inr s \<Rightarrow>
                  (case globals ''docId'' of
                     None \<Rightarrow> throw (ReferenceError ''docId'')
                   | Some g \<Rightarrow>
                       (case to_string g of
                          Inl e \<Rightarrow> throw e
                        | Inr t \<Rightarrow>
                            api_request c (''/document-sets/'' @ s @ ''/documents/'' @ t)
                              rq JUndefined JUndefined)))
           else throw (TypeError ''this.getAllDocuments''))
      | Store \<Rightarrow>
          (if truthy (storeObjectId c) then
             (case to_string (storeObjectId c) of
                Inl e \<Rightarrow> throw e
              | Inr s \<Rightarrow> api_request c (''/store/objects/'' @ s) rq JUndefined JUndefined)
           else throw (Error ''Must specify a specific store object to return first''))
      | Unset \<Rightarrow>
          throw (Error ''Must specify a document set, document, or store object first.''))"

definition getState :: "'r client \<Rightarrow> 'r callable \<Rightarrow> 'r outcome" where
  "getState c rq =
     (if mode c \<noteq> Store
      then throw (Error ''You must be operating on the store to set state.'')
      else api_request c ''/store/state'' rq JUndefined JUndefined)"

definition setState :: "'r client \<Rightarrow> jsval \<Rightarrow> 'r callable \<Rightarrow> 'r outcome" where
  "setState c state rq =
     (if mode c \<noteq> Store
      then throw (Error ''You must be operating on the store to set state.'')
      else api_request c ''/store/state'' rq (JStr ''PUT'') state)"

definition getObjects :: "'r client \<Rightarrow> 'r callable \<Rightarrow> 'r outcome" where
  "getObjects c rq =
     (if mode c \<noteq> Store
      then throw (Error ''You must be operating on the store to get its objects.'')
      else api_request c ''/store/objects'' rq JUndefined JUndefined)"

definition createObject :: "'r client \<Rightarrow> jsval \<Rightarrow> 'r callable \<Rightarrow> 'r outcome" where
  "createObject c state rq = api_request c ''/store/objects'' rq (JStr ''POST'') state"

definition updateStoreObject :: "'r client \<Rightarrow> jsval \<Rightarrow> 'r callable \<Rightarrow> 'r outcome" where
  "updateStoreObject c state rq =
     (if \<not> truthy (storeObjectId c)
      then throw (Error ''You must specify a store object id before calling this method.'')
      else
        (case to_string (storeObjectId c) of
           Inl e \<Rightarrow> throw e
         | Inr s \<Rightarrow> api_request c (''/store/objects/'' @ s) rq (JStr ''PUT'') state))"

subsection \<open>Calls on a client\<close>

text \<open>
  The methods of the fluent interface as data, so that a statement can range over all of
  them: the four selectors, and the eight actions with their arguments (the optional
  requester is passed apart).
\<close>

datatype selector = SelDocSet jsval | SelDoc jsval | SelStore | SelObject jsval

datatype action =
    GetIds
  | GetDocuments jsval jsval
  | Get
  | GetState
  | SetState jsval
  | GetObjects
  | CreateObject jsval
  | UpdateStoreObject jsval

fun select :: "'r client \<Rightarrow> selector \<Rightarrow> error + 'r client" where
  "select c (SelDocSet i) = Inr (docSet c i)"
| "select c (SelDoc i) = doc c i"
| "select c SelStore = Inr (store c)"
| "select c (SelObject i) = Inr (object c i)"

fun perform :: "(string \<rightharpoonup> jsval) \<Rightarrow> 'r client \<Rightarrow> action \<Rightarrow> 'r callable \<Rightarrow> 'r outcome" where
  "perform g c GetIds rq = getIds c rq"
| "perform g c (GetDocuments fs so) rq = getDocuments c fs so rq"
| "perform g c Get rq = get g c rq"
| "perform g c GetState rq = getState c rq"
| "perform g c (SetState st) rq = setState c st rq"
| "perform g c GetObjects rq = getObjects c rq"
| "perform g c (CreateObject st) rq = createObject c st rq"
| "perform g c (UpdateStoreObject st) rq = updateStoreObject c st rq"

text \<open>
  One method call on the client: the client after the call, the requests handed to a
  requester, and the error if the call threw. The only throw of a selector, in
  \<^verbatim>\<open>doc\<close>, comes before its assignments, and an action assigns nothing, so a call that
  throws leaves the client as it was.
\<close>

datatype 'r call = Select selector | Act action "'r callable"

fun invoke ::
  "(string \<rightharpoonup> jsval) \<Rightarrow> 'r client \<Rightarrow> 'r call \<Rightarrow> 'r client \<times> request list \<times> error option" where
  "invoke g c (Select s) =
     (case select c s of Inl e \<Rightarrow> (c, [], Some e) | Inr c' \<Rightarrow> (c', [], None))"
| "invoke g c (Act a rq) =
     (case perform g c a rq of
        (sent, Inl e) \<Rightarrow> (c, sent, Some e)
      | (sent, Inr y) \<Rightarrow> (c, sent, None))"

text \<open>
  A caller making one call after the other on the same client, going on after a call
  that threw: the client it ends up with.
\<close>

fun run :: "(string \<rightharpoonup> jsval) \<Rightarrow> 'r client \<Rightarrow> 'r call list \<Rightarrow> 'r client" where
  "run g c [] = c"
| "run g c (x # xs) = run g (fst (invoke g c x)) xs"

subsection \<open>Names of the specification\<close>

text \<open>
  The source throws plain \<^verbatim>\<open>Error\<close> objects. The error of \<^verbatim>\<open>_request\<close> for a
  missing requester is what the specification calls the ConfigurationError.
\<close>

definition ConfigurationError :: error where
  "ConfigurationError =
     Error ''You must provide a requester function when constructing the class or making the request.''"

definition authorization :: "request \<Rightarrow> string option" where
  "authorization d = headers d ''Authorization''"

definition content_type :: "request \<Rightarrow> string option" where
  "content_type d = headers d ''Content-Type''"

text \<open>The request that \<^verbatim>\<open>_request\<close> builds for a client, a path, a method and a body.\<close>

definition descriptor :: "'r client \<Rightarrow> string \<Rightarrow> jsval \<Rightarrow> jsval \<Rightarrow> request" where
  "descriptor c path meth bdy =
     \<lparr>url = host c @ ''/api/v1'' @ path,
      body = bdy,
      method = (if truthy meth then meth else JStr ''GET''),
      headers = (if truthy bdy
                 then [''Authorization'' \<mapsto> ''Basic '' @ apiTokenEncoded c,
                       ''Content-Type'' \<mapsto> ''application/json'']
                 else [''Authorization'' \<mapsto> ''Basic '' @ apiTokenEncoded c])\<rparr>"

text \<open>
  The path of a query on the documents of a document set, from the string \<open>s\<close> of
  its id: the part up to the question mark, then the query string.
\<close>

definition documents_path :: "string \<Rightarrow> string \<Rightarrow> string" where
  "documents_path s query = ''/document-sets/'' @ s @ ''/documents?'' @ query"

section \<open>Properties of request dispatch\<close>

lemma api_request_Fn:
  "pick rq (requester c) = Fn f \<Longrightarrow>
   api_request c path rq meth bdy =
     ([descriptor c path meth bdy], Inr (f (descriptor c path meth bdy)))"
  by (simp add: api_request_def descriptor_def Let_def)

lemma api_request_Val:
  "pick rq (requester c) = Val v \<Longrightarrow>
   api_request c path rq meth bdy = ([], Inl ConfigurationError)"
  by (simp add: api_request_def ConfigurationError_def throw_def)

lemma descriptor_sel:
  "url (descriptor c path meth bdy) = host c @ ''/api/v1'' @ path"
  "method (descriptor c path meth bdy) = (if truthy meth then meth else JStr ''GET'')"
  "body (descriptor c path meth bdy) = bdy"
  by (simp_all add: descriptor_def)

lemma descriptor_headers:
  "authorization (descriptor c path meth bdy) = Some (''Basic '' @ apiTokenEncoded c)"
  "content_type (descriptor c path meth bdy) =
     (if truthy bdy then Some ''application/json'' else None)"
  by (simp_all add: descriptor_def authorization_def content_type_def)

text \<open>
  Every action either throws before it looks at the requester, or ends in one call of
  \<^verbatim>\<open>_request\<close>, whose path, method and body do not depend on the requester.
\<close>

lemma perform_shape:
  "(\<exists>e. \<forall>rq. perform g c a rq = ([], Inl e)) \<or>
   (\<exists>path meth bdy. \<forall>rq. perform g c a rq = api_request c path rq meth bdy)"
proof -
  have L: "\<And>e. (\<And>rq. perform g c a rq = ([], Inl e)) \<Longrightarrow> ?thesis"
    by blast
  have R: "\<And>path meth bdy.
             (\<And>rq. perform g c a rq = api_request c path rq meth bdy) \<Longrightarrow> ?thesis"
    by blast
  show ?thesis
  proof (cases a)
    case GetIds
    show ?thesis
    proof (cases "truthy (docSetId c)")
      case False
      with GetIds show ?thesis
        by (intro L) (simp add: getIds_def throw_def)
    next
      case True
      show ?thesis
      proof (cases "to_string (docSetId c)")
        case (Inl e)
        with GetIds True show ?thesis
          by (intro L) (simp add: getIds_def throw_def)
      next
        case (Inr s)
        with GetIds True show ?thesis
          by (intro R) (simp add: getIds_def)
      qed
    qed
  next
    case (GetDocuments fs so)
    show ?thesis
    proof (cases "truthy (docSetId c)")
      case False
      with GetDocuments show ?thesis
        by (intro L) (simp add: getDocuments_def throw_def)
    next
      case True
      show ?thesis
      proof (cases "if truthy so then to_string so else Inr []")
        case (Inl e)
        with GetDocuments True show ?thesis
          by (intro L) (simp add: getDocuments_def throw_def)
      next
        case so: (Inr sp)
        show ?thesis
        proof (cases "\<exists>xs. (if truthy fs then fs else JArr [JStr ''id'', JStr ''text'']) = JArr xs")
          case False
          with GetDocuments True so show ?thesis
            by (intro L [of "TypeError ''fields.join''"])
              (auto simp: getDocuments_def throw_def Let_def split: jsval.splits)
        next
          case True
          then obtain xs
            where fs: "(if truthy fs then fs else JArr [JStr ''id'', JStr ''text'']) = JArr xs"
            by blast
          show ?thesis
          proof (cases "to_string (JArr xs)")
            case (Inl e)
            with GetDocuments \<open>truthy (docSetId c)\<close> so fs show ?thesis
              by (intro L) (simp add: getDocuments_def throw_def Let_def)
          next
            case fp: (Inr fp)
            show ?thesis
            proof (cases "to_string (docSetId c)")
              case (Inl e)
              with GetDocuments \<open>truthy (docSetId c)\<close> so fs fp show ?thesis
                by (intro L) (simp add: getDocuments_def throw_def Let_def)
            next
              case (Inr s)
              with GetDocuments \<open>truthy (docSetId c)\<close> so fs fp show ?thesis
                by (intro R) (simp add: getDocuments_def Let_def)
            qed
          qed
        qed
      qed
    qed
  next
    case Get
    show ?thesis
    proof (cases "mode c")
      case Unset
      with Get show ?thesis
        by (intro L) (simp add: get_def throw_def)
    next
      case Doc
      show ?thesis
      proof (cases "truthy (docId c)")
        case False
        with Get Doc show ?thesis
          by (intro L) (simp add: get_def throw_def)
      next
        case True
        show ?thesis
        proof (cases "to_string (docSetId c)")
          case (Inl e)
          with Get Doc True show ?thesis
            by (intro L) (simp add: get_def throw_def)
        next
          case s: (Inr s)
          show ?thesis
          proof (cases "g ''docId''")
            case None
            with Get Doc True s show ?thesis
              by (intro L) (simp add: get_def throw_def)
          next
            case (Some v)
            show ?thesis
            proof (cases "to_string v")
              case (Inl e)
              with Get Doc True s Some show ?thesis
                by (intro L) (simp add: get_def throw_def)
            next
              case (Inr t)
              with Get Doc True s Some show ?thesis
                by (intro R) (simp add: get_def)
            qed
          qed
        qed
      qed
    next
      case Store
      show ?thesis
      proof (cases "truthy (storeObjectId c)")
        case False
        with Get Store show ?thesis
          by (intro L) (simp add: get_def throw_def)
      next
        case True
        show ?thesis
        proof (cases "to_string (storeObjectId c)")
          case (Inl e)
          with Get Store True show ?thesis
            by (intro L) (simp add: get_def throw_def)
        next
          case (Inr s)
          with Get Store True show ?thesis
            by (intro R) (simp add: get_def)
        qed
      qed
    qed
  next
    case GetState
    show ?thesis
    proof (cases "mode c = Store")
      case False
      with GetState show ?thesis
        by (intro L) (simp add: getState_def throw_def)
    next
      case True
      with GetState show ?thesis
        by (intro R) (simp add: getState_def)
    qed
  next
    case (SetState st)
    show ?thesis
    proof (cases "mode c = Store")
      case False
      with SetState show ?thesis
        by (intro L) (simp add: setState_def throw_def)
    next
      case True
      with SetState show ?thesis
        by (intro R) (simp add: setState_def)
    qed
  next
    case GetObjects
    show ?thesis
    proof (cases "mode c = Store")
      case False
      with GetObjects show ?thesis
        by (intro L) (simp add: getObjects_def throw_def)
    next
      case True
      with GetObjects show ?thesis
        by (intro R) (simp add: getObjects_def)
    qed
  next
    case (CreateObject st)
    then show ?thesis
      by (intro R) (simp add: createObject_def)
  next
    case (UpdateStoreObject st)
    show ?thesis
    proof (cases "truthy (storeObjectId c)")
      case False
      with UpdateStoreObject show ?thesis
        by (intro L) (simp add: updateStoreObject_def throw_def)
    next
      case True
      show ?thesis
      proof (cases "to_string (storeObjectId c)")
        case (Inl e)
        with UpdateStoreObject True show ?thesis
          by (intro L) (simp add: updateStoreObject_def throw_def)
      next
        case (Inr s)
        with UpdateStoreObject True show ?thesis
          by (intro R) (simp add: updateStoreObject_def)
      qed
    qed
  qed
qed

text \<open>
  So every action either throws without a request, or hands exactly one request to the
  requester, built by \<open>descriptor\<close>, and returns what the requester returns.
\<close>

lemma perform_cases:
  "(\<exists>e. perform g c a rq = ([], Inl e)) \<or>
   (\<exists>f path meth bdy. perform g c a rq =
      ([descriptor c path meth bdy], Inr (f (descriptor c path meth bdy))))"
proof -
  from perform_shape [of g c a] show ?thesis
  proof
    assume "\<exists>e. \<forall>rq. perform g c a rq = ([], Inl e)"
    then show ?thesis
      by blast
  next
    assume "\<exists>path meth bdy. \<forall>rq. perform g c a rq = api_request c path rq meth bdy"
    then obtain path meth bdy
      where shape: "perform g c a rq = api_request c path rq meth bdy"
      by blast
    show ?thesis
    proof (cases "pick rq (requester c)")
      case (Fn f)
      have "perform g c a rq =
              ([descriptor c path meth bdy], Inr (f (descriptor c path meth bdy)))"
        by (simp add: shape api_request_Fn [OF Fn])
      then show ?thesis
        by blast
    next
      case (Val v)
      have "perform g c a rq = ([], Inl ConfigurationError)"
        by (simp add: shape api_request_Val [OF Val])
      then show ?thesis
        by blast
    qed
  qed
qed

text \<open>No call assigns to \<^verbatim>\<open>apiTokenEncoded\<close>.\<close>

lemma select_fixed:
  "select c s = Inr c' \<Longrightarrow> apiTokenEncoded c' = apiTokenEncoded c"
  by (cases s) (auto simp: docSet_def doc_def store_def object_def split: if_splits)

lemma invoke_fixed: "apiTokenEncoded (fst (invoke g c x)) = apiTokenEncoded c"
  by (cases x) (auto split: sum.splits prod.splits dest: select_fixed)

lemma run_fixed: "apiTokenEncoded (run g c xs) = apiTokenEncoded c"
  by (induction xs arbitrary: c) (simp_all add: invoke_fixed)

lemma sublist_documents_path:
  "sublist x query \<Longrightarrow> sublist x (documents_path s query)"
  unfolding sublist_def documents_path_def by (metis append.assoc)

text \<open>
  A string without the character \<open>c\<close> lies on one side of a \<open>c\<close> when it occurs
  in a string with that character in it.
\<close>

lemma sublist_sep:
  "c \<notin> set x \<Longrightarrow> sublist x (A @ c # S) \<longleftrightarrow> sublist x A \<or> sublist x S"
  by (auto simp: sublist_append sublist_Cons_right prefix_Cons suffix_def)

lemma sort_in_documents_path:
  assumes "\<not> sublist ''sort='' (''documents?'' @ query)"
  shows "sublist ''sort='' (documents_path s query) \<longleftrightarrow> sublist ''sort='' s"
proof -
  have shape: "documents_path s query
                 = ''/document-sets'' @ CHR ''/'' # (s @ CHR ''/'' # (''documents?'' @ query))"
    by (simp add: documents_path_def)
  have slash: "CHR ''/'' \<notin> set ''sort=''"
    by simp
  have left: "\<not> sublist ''sort='' ''/document-sets''"
    by (simp add: sublist_Cons_right)
  show ?thesis
    unfolding shape sublist_sep [OF slash] using left assms by blast
qed

section \<open>Claims about \<^verbatim>\<open>get\<close>\<close>

text \<open>
  C1. In document mode with a document set and a document selected, \<^verbatim>\<open>get()\<close> is meant
  to send a GET for \<^verbatim>\<open>/document-sets/{documentSetId}/documents/{documentId}\<close>. The source
  builds the path from the undeclared identifier \<^verbatim>\<open>docId\<close> instead of
  \<^verbatim>\<open>this.docId\<close>: after \<^verbatim>\<open>docSet(5).doc(9)\<close>, with no global of that name,
  \<^verbatim>\<open>get()\<close> throws a ReferenceError and hands no request to the requester.
\<close>

theorem get_single_document_ReferenceError:
  "get Map.empty
     (run Map.empty (API ''https://example.org'' ''token'' (Fn id))
        [Select (SelDocSet (JNum 5)), Select (SelDoc (JNum 9))])
     (Val JUndefined)
   = ([], Inl (ReferenceError ''docId''))"
  by (simp add: get_def API_def docSet_def doc_def throw_def)

text \<open>
  C2. In document mode with a document set and no document selected, \<^verbatim>\<open>get()\<close> is
  meant to send the request of \<^verbatim>\<open>getDocuments(undefined, undefined, requester)\<close>. The
  source calls \<^verbatim>\<open>this.getAllDocuments\<close>, which the client does not have: after
  \<^verbatim>\<open>docSet(5)\<close>, \<^verbatim>\<open>get()\<close> throws a TypeError and hands no request to the
  requester, where \<^verbatim>\<open>getDocuments()\<close> on the same client sends the query for all
  documents.
\<close>

theorem get_all_documents_TypeError:
  "get Map.empty (docSet (API ''https://example.org'' ''token'' (Fn id)) (JNum 5))
       (Val JUndefined)
     = ([], Inl (TypeError ''this.getAllDocuments'')) \<and>
   getDocuments (docSet (API ''https://example.org'' ''token'' (Fn id)) (JNum 5))
       JUndefined JUndefined (Val JUndefined)
     = ([descriptor (docSet (API ''https://example.org'' ''token'' (Fn id)) (JNum 5))
           ''/document-sets/5/documents?stream=true&fields=id,text'' JUndefined JUndefined],
        Inr (descriptor (docSet (API ''https://example.org'' ''token'' (Fn id)) (JNum 5))
           ''/document-sets/5/documents?stream=true&fields=id,text'' JUndefined JUndefined))"
  by (simp add: get_def getDocuments_def api_request_Fn API_def docSet_def throw_def
        show_int_def digits.simps digit_def Let_def)

section \<open>Claims about the selectors\<close>

text \<open>
  C3, as amended. \<^verbatim>\<open>docSet(id)\<close> sets the mode to document and the document set id
  to \<open>id\<close>, and assigns nothing else: a document id selected before stays selected, as
  does a store object id.
\<close>

theorem docSet_effect:
  "mode (docSet c i) = Doc \<and> docSetId (docSet c i) = i \<and>
   docId (docSet c i) = docId c \<and> storeObjectId (docSet c i) = storeObjectId c \<and>
   host (docSet c i) = host c \<and> requester (docSet c i) = requester c \<and>
   apiTokenEncoded (docSet c i) = apiTokenEncoded c"
  by (simp add: docSet_def)

text \<open>
  C3 as stated fails: after \<^verbatim>\<open>docSet(1).doc(2).docSet(3)\<close> the document id is still 2.
\<close>

theorem docSet_keeps_docId_counterexample:
  "docId (docSet (run Map.empty (API ''h'' ''t'' (Val JUndefined :: unit callable))
                    [Select (SelDocSet (JNum 1)), Select (SelDoc (JNum 2))]) (JNum 3)) = JNum 2 \<and>
   JNum 2 \<noteq> JUndefined"
  by (simp add: API_def docSet_def doc_def)

text \<open>
  C4, as amended. \<^verbatim>\<open>store()\<close> sets the mode to store and assigns nothing else: a
  store object id selected before stays selected.
\<close>

theorem store_effect:
  "mode (store c) = Store \<and> storeObjectId (store c) = storeObjectId c \<and>
   docSetId (store c) = docSetId c \<and> docId (store c) = docId c \<and>
   host (store c) = host c \<and> requester (store c) = requester c \<and>
   apiTokenEncoded (store c) = apiTokenEncoded c"
  by (simp add: store_def)

text \<open>
  C4 as stated fails: after \<^verbatim>\<open>object(7).store()\<close> the store object id is still 7.
\<close>

theorem store_keeps_storeObjectId_counterexample:
  "storeObjectId (store (object (API ''h'' ''t'' (Val JUndefined :: unit callable)) (JNum 7)))
     = JNum 7 \<and>
   JNum 7 \<noteq> JUndefined"
  by (simp add: API_def store_def object_def)

section \<open>Claims about the request\<close>

text \<open>
  C5, as amended. Take a client built by the constructor from a token and used through
  any sequence of calls. Every request that an action then hands to a requester has the
  header \<^verbatim>\<open>Authorization\<close> equal to \<^verbatim>\<open>"Basic "\<close> followed by the base64 of the token
  and \<^verbatim>\<open>":x-auth-token"\<close>, whatever the mode, the path and the action; and it has the
  header \<^verbatim>\<open>Content-Type: application/json\<close> if and only if its body is truthy, and no
  \<^verbatim>\<open>Content-Type\<close> header otherwise.
\<close>

theorem request_headers:
  assumes "d \<in> set (fst (perform g (run g (API h apiToken rq0) xs) a rq))"
  shows "authorization d = Some (''Basic '' @ base64 (apiToken @ '':x-auth-token'')) \<and>
         (content_type d = Some ''application/json'' \<longleftrightarrow> truthy (body d)) \<and>
         (content_type d = None \<longleftrightarrow> \<not> truthy (body d))"
proof -
  let ?c = "run g (API h apiToken rq0) xs"
  have tok: "apiTokenEncoded ?c = base64 (apiToken @ '':x-auth-token'')"
    by (simp add: run_fixed) (simp add: API_def)
  from perform_cases [of g ?c a rq] assms
  obtain path meth bdy where "d = descriptor ?c path meth bdy"
    by auto
  then show ?thesis
    by (simp add: descriptor_headers descriptor_sel tok)
qed

text \<open>
  The request of \<^verbatim>\<open>client.store().setState({x: 1})\<close> for the token \<^verbatim>\<open>testToken\<close>.
\<close>

theorem request_headers_witness:
  "fst (perform Map.empty
          (run Map.empty (API ''https://example.org'' ''testToken'' (Fn id)) [Select SelStore])
          (SetState (JObj [(''x'', JNum 1)])) (Val JUndefined))
    = [descriptor (store (API ''https://example.org'' ''testToken'' (Fn id))) ''/store/state''
          (JStr ''PUT'') (JObj [(''x'', JNum 1)])] \<and>
   authorization (descriptor (store (API ''https://example.org'' ''testToken'' (Fn id)))
      ''/store/state'' (JStr ''PUT'') (JObj [(''x'', JNum 1)]))
    = Some ''Basic dGVzdFRva2VuOngtYXV0aC10b2tlbg=='' \<and>
   content_type (descriptor (store (API ''https://example.org'' ''testToken'' (Fn id)))
      ''/store/state'' (JStr ''PUT'') (JObj [(''x'', JNum 1)]))
    = Some ''application/json''"
proof -
  have sent:
    "fst (perform Map.empty
            (run Map.empty (API ''https://example.org'' ''testToken'' (Fn id)) [Select SelStore])
            (SetState (JObj [(''x'', JNum 1)])) (Val JUndefined))
      = [descriptor (store (API ''https://example.org'' ''testToken'' (Fn id))) ''/store/state''
            (JStr ''PUT'') (JObj [(''x'', JNum 1)])]"
    by (simp add: setState_def api_request_Fn store_def API_def)
  have mem:
    "descriptor (store (API ''https://example.org'' ''testToken'' (Fn id))) ''/store/state''
        (JStr ''PUT'') (JObj [(''x'', JNum 1)])
      \<in> set (fst (perform Map.empty
            (run Map.empty (API ''https://example.org'' ''testToken'' (Fn id)) [Select SelStore])
            (SetState (JObj [(''x'', JNum 1)])) (Val JUndefined)))"
    by (simp only: sent) simp
  from request_headers [OF mem] sent show ?thesis
    by (simp add: descriptor_sel b64_char_def b64_alphabet_def)
qed

text \<open>
  C5 as stated fails when the body is falsy without being absent, and for a body that is
  an empty object: \<^verbatim>\<open>client.store().setState(0)\<close> hands the requester a request whose
  body is \<^verbatim>\<open>0\<close> and which has no \<^verbatim>\<open>Content-Type\<close> header, and
  \<^verbatim>\<open>client.store().setState({})\<close> one with the header.
\<close>

theorem content_type_falsy_body_counterexample:
  "setState (store (API ''https://example.org'' ''testToken'' (Fn id))) (JNum 0) (Val JUndefined)
    = ([descriptor (store (API ''https://example.org'' ''testToken'' (Fn id))) ''/store/state''
          (JStr ''PUT'') (JNum 0)],
       Inr (descriptor (store (API ''https://example.org'' ''testToken'' (Fn id))) ''/store/state''
          (JStr ''PUT'') (JNum 0))) \<and>
   body (descriptor (store (API ''https://example.org'' ''testToken'' (Fn id))) ''/store/state''
          (JStr ''PUT'') (JNum 0)) = JNum 0 \<and>
   JNum 0 \<noteq> JUndefined \<and>
   content_type (descriptor (store (API ''https://example.org'' ''testToken'' (Fn id)))
          ''/store/state'' (JStr ''PUT'') (JNum 0)) = None \<and>
   setState (store (API ''https://example.org'' ''testToken'' (Fn id))) (JObj []) (Val JUndefined)
    = ([descriptor (store (API ''https://example.org'' ''testToken'' (Fn id))) ''/store/state''
          (JStr ''PUT'') (JObj [])],
       Inr (descriptor (store (API ''https://example.org'' ''testToken'' (Fn id))) ''/store/state''
          (JStr ''PUT'') (JObj []))) \<and>
   content_type (descriptor (store (API ''https://example.org'' ''testToken'' (Fn id)))
          ''/store/state'' (JStr ''PUT'') (JObj [])) = Some ''application/json''"
  by (simp add: setState_def api_request_Fn store_def API_def descriptor_headers descriptor_sel)

section \<open>Claims about errors\<close>

text \<open>
  C6. A call that throws, and so every call that raises one of the precondition errors
  or the error for a missing requester, has handed no request to a requester, and
  leaves the client, with its mode and its ids, as it was before the call.
\<close>

theorem throw_before_request:
  assumes "invoke g c x = (c', sent, Some e)"
  shows "sent = [] \<and> c' = c"
proof (cases x)
  case (Select s)
  with assms show ?thesis
    by (auto split: sum.splits)
next
  case (Act a rq)
  from perform_cases [of g c a rq] Act assms show ?thesis
    by auto
qed

text \<open>\<^verbatim>\<open>getState()\<close> on a client that is not in store mode.\<close>

theorem throw_before_request_witness:
  "invoke Map.empty (API ''h'' ''t'' (Fn id)) (Act GetState (Val JUndefined))
     = (API ''h'' ''t'' (Fn id), [],
        Some (Error ''You must be operating on the store to set state.''))"
proof -
  have "\<exists>c' sent. invoke Map.empty (API ''h'' ''t'' (Fn id)) (Act GetState (Val JUndefined))
     = (c', sent, Some (Error ''You must be operating on the store to set state.''))"
    by (simp add: getState_def API_def throw_def)
  then obtain c' sent where
    *: "invoke Map.empty (API ''h'' ''t'' (Fn id)) (Act GetState (Val JUndefined))
     = (c', sent, Some (Error ''You must be operating on the store to set state.''))"
    by blast
  from throw_before_request [OF *] * show ?thesis by simp
qed

text \<open>
  C7, as amended. When neither the requester passed to an action nor the one given to
  the constructor is a function, the action throws and hands no request to anything. The
  error is the ConfigurationError whenever the same call with a requester returns;
  when the same call with a requester throws, it is the error thrown there, which a
  check of the action raises before the requester is looked at.
\<close>

theorem no_requester:
  assumes "pick rq (requester c) = Val v"
  shows "\<exists>e. perform g c a rq = ([], Inl e) \<and>
           (\<forall>f sent r. perform g c a (Fn f) = (sent, r) \<longrightarrow>
              (case r of Inl e' \<Rightarrow> e = e' | Inr y \<Rightarrow> e = ConfigurationError))"
proof -
  from perform_shape [of g c a] show ?thesis
  proof
    assume "\<exists>e. \<forall>rq. perform g c a rq = ([], Inl e)"
    then show ?thesis
      by auto
  next
    assume "\<exists>path meth bdy. \<forall>rq. perform g c a rq = api_request c path rq meth bdy"
    then obtain path meth bdy
      where shape: "\<And>rq. perform g c a rq = api_request c path rq meth bdy"
      by blast
    have "perform g c a rq = ([], Inl ConfigurationError)"
      by (simp add: shape api_request_Val [OF assms])
    moreover have "\<And>f sent r. perform g c a (Fn f) = (sent, r) \<Longrightarrow> \<exists>y. r = Inr y"
      by (auto simp: shape api_request_Fn)
    ultimately show ?thesis
      by (intro exI [of _ ConfigurationError]) (auto split: sum.splits)
  qed
qed

text \<open>\<^verbatim>\<open>getState()\<close> in store mode on a client built without a requester.\<close>

theorem no_requester_witness:
  "pick (Val JUndefined) (requester (store (API ''h'' ''t'' (Val JUndefined) :: request client)))
     = Val JUndefined \<and>
   perform Map.empty (store (API ''h'' ''t'' (Val JUndefined))) GetState (Val JUndefined)
     = ([], Inl ConfigurationError :: error + request)"
proof -
  have p: "pick (Val JUndefined)
             (requester (store (API ''h'' ''t'' (Val JUndefined) :: request client)))
             = Val JUndefined"
    by (simp add: store_def API_def)
  have q: "\<exists>sent y. perform Map.empty (store (API ''h'' ''t'' (Val JUndefined))) GetState (Fn id)
             = (sent, Inr y)"
    by (simp add: getState_def store_def API_def api_request_Fn)
  from no_requester [OF p, of Map.empty GetState] q p show ?thesis
    by (auto split: sum.splits)
qed

text \<open>
  C7 as stated fails: \<^verbatim>\<open>getState()\<close> on a fresh client without a requester throws
  the error of its mode check, not the ConfigurationError.
\<close>

theorem no_requester_counterexample:
  "getState (API ''h'' ''t'' (Val JUndefined :: unit callable)) (Val JUndefined)
     = ([], Inl (Error ''You must be operating on the store to set state.'')) \<and>
   Error ''You must be operating on the store to set state.'' \<noteq> ConfigurationError"
  by (simp add: getState_def API_def throw_def ConfigurationError_def)

section \<open>Claims about the paths\<close>

text \<open>
  C8, as amended. Take a client whose document set id is truthy and has the string
  \<open>s\<close>, with a requester at hand. \<^verbatim>\<open>getDocuments()\<close> requests the path
  \<^verbatim>\<open>/document-sets/{s}/documents?stream=true&fields=id,text\<close>: the path contains
  \<^verbatim>\<open>stream=true\<close> and \<^verbatim>\<open>fields=id,text\<close>, and it contains \<^verbatim>\<open>sort=\<close> exactly
  when \<open>s\<close> itself does. \<^verbatim>\<open>getDocuments(["a","b"], "date")\<close> requests the path
  \<^verbatim>\<open>/document-sets/{s}/documents?stream=true&fields=a,b&sort=date\<close>, which contains
  \<^verbatim>\<open>fields=a,b\<close> and \<^verbatim>\<open>&sort=date\<close>.
\<close>

theorem getDocuments_query:
  assumes "truthy (docSetId c)" and "to_string (docSetId c) = Inr s"
    and "pick rq (requester c) = Fn f"
  shows "getDocuments c JUndefined JUndefined rq =
           ([descriptor c (documents_path s ''stream=true&fields=id,text'') JUndefined JUndefined],
            Inr (f (descriptor c (documents_path s ''stream=true&fields=id,text'')
                      JUndefined JUndefined))) \<and>
         url (descriptor c (documents_path s ''stream=true&fields=id,text'') JUndefined JUndefined)
           = host c @ ''/api/v1'' @ documents_path s ''stream=true&fields=id,text'' \<and>
         sublist ''stream=true'' (documents_path s ''stream=true&fields=id,text'') \<and>
         sublist ''fields=id,text'' (documents_path s ''stream=true&fields=id,text'') \<and>
         (sublist ''sort='' (documents_path s ''stream=true&fields=id,text'')
            \<longleftrightarrow> sublist ''sort='' s) \<and>
         getDocuments c (JArr [JStr ''a'', JStr ''b'']) (JStr ''date'') rq =
           ([descriptor c (documents_path s ''stream=true&fields=a,b&sort=date'')
               JUndefined JUndefined],
            Inr (f (descriptor c (documents_path s ''stream=true&fields=a,b&sort=date'')
                      JUndefined JUndefined))) \<and>
         url (descriptor c (documents_path s ''stream=true&fields=a,b&sort=date'')
                JUndefined JUndefined)
           = host c @ ''/api/v1'' @ documents_path s ''stream=true&fields=a,b&sort=date'' \<and>
         sublist ''fields=a,b'' (documents_path s ''stream=true&fields=a,b&sort=date'') \<and>
         sublist ''&sort=date'' (documents_path s ''stream=true&fields=a,b&sort=date'')"
proof -
  have 1: "getDocuments c JUndefined JUndefined rq =
           ([descriptor c (documents_path s ''stream=true&fields=id,text'') JUndefined JUndefined],
            Inr (f (descriptor c (documents_path s ''stream=true&fields=id,text'')
                      JUndefined JUndefined)))"
    using assms by (simp add: getDocuments_def documents_path_def api_request_Fn Let_def)
  have 2: "getDocuments c (JArr [JStr ''a'', JStr ''b'']) (JStr ''date'') rq =
           ([descriptor c (documents_path s ''stream=true&fields=a,b&sort=date'')
               JUndefined JUndefined],
            Inr (f (descriptor c (documents_path s ''stream=true&fields=a,b&sort=date'')
                      JUndefined JUndefined)))"
    using assms by (simp add: getDocuments_def documents_path_def api_request_Fn Let_def)
  have 3: "sublist ''stream=true'' (documents_path s ''stream=true&fields=id,text'')"
    by (rule sublist_documents_path) (simp add: sublist_Cons_right)
  have 4: "sublist ''fields=id,text'' (documents_path s ''stream=true&fields=id,text'')"
    by (rule sublist_documents_path) (simp add: sublist_Cons_right)
  have 5: "sublist ''sort='' (documents_path s ''stream=true&fields=id,text'')
             \<longleftrightarrow> sublist ''sort='' s"
    by (rule sort_in_documents_path) (simp add: sublist_Cons_right)
  have 6: "sublist ''fields=a,b'' (documents_path s ''stream=true&fields=a,b&sort=date'')"
    by (rule sublist_documents_path) (simp add: sublist_Cons_right)
  have 7: "sublist ''&sort=date'' (documents_path s ''stream=true&fields=a,b&sort=date'')"
    by (rule sublist_documents_path) (simp add: sublist_Cons_right)
  from 1 2 3 4 5 6 7 show ?thesis
    by (simp add: descriptor_sel)
qed

text \<open>
  The two calls after \<^verbatim>\<open>docSet("my-docs")\<close>, with the urls written out; the first has
  no \<^verbatim>\<open>sort=\<close>.
\<close>

theorem getDocuments_query_witness:
  "truthy (docSetId (docSet (API ''https://example.org'' ''t'' (Fn id)) (JStr ''my-docs''))) \<and>
   to_string (docSetId (docSet (API ''https://example.org'' ''t'' (Fn id)) (JStr ''my-docs'')))
     = Inr ''my-docs'' \<and>
   map url (fst (getDocuments (docSet (API ''https://example.org'' ''t'' (Fn id)) (JStr ''my-docs''))
                   JUndefined JUndefined (Val JUndefined)))
     = [''https://example.org/api/v1/document-sets/my-docs/documents?stream=true&fields=id,text''] \<and>
   \<not> sublist ''sort='' (documents_path ''my-docs'' ''stream=true&fields=id,text'') \<and>
   map url (fst (getDocuments (docSet (API ''https://example.org'' ''t'' (Fn id)) (JStr ''my-docs''))
                   (JArr [JStr ''a'', JStr ''b'']) (JStr ''date'') (Val JUndefined)))
     = [''https://example.org/api/v1/document-sets/my-docs/documents?stream=true&fields=a,b&sort=date'']"
proof -
  have t: "truthy (docSetId (docSet (API ''https://example.org'' ''t'' (Fn id)) (JStr ''my-docs'')))"
    by (simp add: docSet_def API_def)
  have s: "to_string (docSetId (docSet (API ''https://example.org'' ''t'' (Fn id)) (JStr ''my-docs'')))
             = Inr ''my-docs''"
    by (simp add: docSet_def API_def)
  have p: "pick (Val JUndefined)
             (requester (docSet (API ''https://example.org'' ''t'' (Fn id)) (JStr ''my-docs'')))
           = Fn id"
    by (simp add: docSet_def API_def)
  have n: "\<not> sublist ''sort='' ''my-docs''"
    by (simp add: sublist_Cons_right)
  from getDocuments_query [OF t s p] t s n show ?thesis
    by (simp add: documents_path_def docSet_def API_def)
qed

text \<open>
  C8 as stated fails for two kinds of id. An object with an own property
  \<^verbatim>\<open>toString\<close> is truthy and has no string: after \<^verbatim>\<open>docSet({toString: 1})\<close>,
  \<^verbatim>\<open>getDocuments()\<close> throws a TypeError while it builds the path, and hands no request
  to the requester. An id is put into the path as it is: after \<^verbatim>\<open>docSet("sort=")\<close>,
  the path of \<^verbatim>\<open>getDocuments()\<close> contains \<^verbatim>\<open>sort=\<close>.
\<close>

theorem getDocuments_query_counterexample:
  "truthy (docSetId (docSet (API ''https://example.org'' ''t'' (Fn id))
                       (JObj [(''toString'', JNum 1)]))) \<and>
   getDocuments (docSet (API ''https://example.org'' ''t'' (Fn id)) (JObj [(''toString'', JNum 1)]))
       JUndefined JUndefined (Val JUndefined)
     = ([], Inl (TypeError ''Cannot convert object to primitive value'')) \<and>
   truthy (docSetId (docSet (API ''https://example.org'' ''t'' (Fn id)) (JStr ''sort=''))) \<and>
   map url (fst (getDocuments (docSet (API ''https://example.org'' ''t'' (Fn id)) (JStr ''sort=''))
                   JUndefined JUndefined (Val JUndefined)))
     = [''https://example.org/api/v1/document-sets/sort=/documents?stream=true&fields=id,text''] \<and>
   sublist ''sort='' ''/document-sets/sort=/documents?stream=true&fields=id,text''"
  by (simp add: getDocuments_def api_request_Fn descriptor_sel docSet_def API_def throw_def
        Let_def sublist_Cons_right)

text \<open>
  C9. Whatever the mode of the client, \<^verbatim>\<open>createObject(state)\<close> with a requester at hand
  checks nothing: it hands the requester a POST for \<^verbatim>\<open>/store/objects\<close> with
  \<open>state\<close> as the body, and returns what the requester returns.
\<close>

theorem createObject_any_mode:
  assumes "pick rq (requester c) = Fn f"
  shows "createObject c state rq =
           ([descriptor c ''/store/objects'' (JStr ''POST'') state],
            Inr (f (descriptor c ''/store/objects'' (JStr ''POST'') state))) \<and>
         url (descriptor c ''/store/objects'' (JStr ''POST'') state)
           = host c @ ''/api/v1'' @ ''/store/objects'' \<and>
         method (descriptor c ''/store/objects'' (JStr ''POST'') state) = JStr ''POST'' \<and>
         body (descriptor c ''/store/objects'' (JStr ''POST'') state) = state"
  using assms by (simp add: createObject_def api_request_Fn descriptor_sel)

text \<open>\<^verbatim>\<open>createObject({x: 1})\<close> on a fresh client, whose mode is unset.\<close>

theorem createObject_any_mode_witness:
  "mode (API ''h'' ''t'' (Fn id) :: request client) = Unset \<and>
   createObject (API ''h'' ''t'' (Fn id)) (JObj [(''x'', JNum 1)]) (Val JUndefined) =
     ([descriptor (API ''h'' ''t'' (Fn id)) ''/store/objects'' (JStr ''POST'')
         (JObj [(''x'', JNum 1)])],
      Inr (descriptor (API ''h'' ''t'' (Fn id)) ''/store/objects'' (JStr ''POST'')
             (JObj [(''x'', JNum 1)]))) \<and>
   url (descriptor (API ''h'' ''t'' (Fn id)) ''/store/objects'' (JStr ''POST'')
          (JObj [(''x'', JNum 1)]))
     = ''h/api/v1/store/objects''"
proof -
  have p: "pick (Val JUndefined) (requester (API ''h'' ''t'' (Fn id) :: request client)) = Fn id"
    by (simp add: API_def)
  from createObject_any_mode [OF p, of "JObj [(''x'', JNum 1)]"] show ?thesis
    by (simp add: API_def)
qed

section \<open>Claims about falsy ids\<close>

text \<open>
  C10. The id checks are truthiness tests. When the document set id was set to a falsy
  value, \<^verbatim>\<open>doc\<close>, \<^verbatim>\<open>getIds\<close> and \<^verbatim>\<open>getDocuments\<close> throw their missing-selection
  error, and when the store object id was set to a falsy value, \<^verbatim>\<open>updateStoreObject\<close>
  throws its own: each exactly as with the id \<^verbatim>\<open>undefined\<close>.
\<close>

theorem falsy_id_is_no_id:
  assumes "\<not> truthy v"
  shows "doc (docSet c v) i
           = Inl (Error ''You must specify a doc set id before picking out a document.'') \<and>
         getIds (docSet c v) rq
           = ([], Inl (Error ''Must call docSet() with a set id before using this method.'')) \<and>
         getDocuments (docSet c v) fs so rq
           = ([], Inl (Error ''Must call docSet() with a set id before using this method.'')) \<and>
         updateStoreObject (object c v) st rq
           = ([], Inl (Error ''You must specify a store object id before calling this method.'')) \<and>
         doc (docSet c v) i = doc (docSet c JUndefined) i \<and>
         getIds (docSet c v) rq = getIds (docSet c JUndefined) rq \<and>
         getDocuments (docSet c v) fs so rq = getDocuments (docSet c JUndefined) fs so rq \<and>
         updateStoreObject (object c v) st rq = updateStoreObject (object c JUndefined) st rq"
  using assms
  by (simp add: doc_def docSet_def object_def getIds_def getDocuments_def updateStoreObject_def
        throw_def)

text \<open>The id \<^verbatim>\<open>0\<close>.\<close>

theorem falsy_id_is_no_id_witness:
  "\<not> truthy (JNum 0) \<and>
   doc (docSet (API ''h'' ''t'' (Fn id)) (JNum 0)) (JNum 9)
     = Inl (Error ''You must specify a doc set id before picking out a document.'') \<and>
   getIds (docSet (API ''h'' ''t'' (Fn id)) (JNum 0)) (Val JUndefined)
     = ([], Inl (Error ''Must call docSet() with a set id before using this method.'')) \<and>
   updateStoreObject (object (API ''h'' ''t'' (Fn id)) (JNum 0)) (JObj []) (Val JUndefined)
     = ([], Inl (Error ''You must specify a store object id before calling this method.''))"
proof -
  have f: "\<not> truthy (JNum 0)" by simp
  from falsy_id_is_no_id [OF f, of "API ''h'' ''t'' (Fn id)" "JNum 9" "Val JUndefined" _ _ "JObj []"]
  show ?thesis by simp
qed

end
